theory Spec2Isabelle
  imports Main "HOL-Library.Word"
begin

unbundle bit_operations_syntax

section \<open>Certificate error bitmap and library status flags\<close>

text \<open>
  The \<open>CERTERR_*\<close> values are the bitmap of \<open>ssl_gnutls.c\<close>. The C type of the bitmap is
  \<open>int\<close>; every value that occurs lies in \<open>0..255\<close>, so a 32-bit word reads the same.
\<close>

definition CERTERR_VALID :: "32 word" where "CERTERR_VALID = 0"
definition CERTERR_EXPIRED :: "32 word" where "CERTERR_EXPIRED = 1"
definition CERTERR_NOTYETVALID :: "32 word" where "CERTERR_NOTYETVALID = 2"
definition CERTERR_REVOKED :: "32 word" where "CERTERR_REVOKED = 4"
definition CERTERR_NOTTRUSTED :: "32 word" where "CERTERR_NOTTRUSTED = 8"
definition CERTERR_HOSTNAME :: "32 word" where "CERTERR_HOSTNAME = 16"
definition CERTERR_SIGNERNOTCA :: "32 word" where "CERTERR_SIGNERNOTCA = 32"
definition CERTERR_INSECUREALG :: "32 word" where "CERTERR_INSECUREALG = 64"
definition CERTERR_OTHER :: "32 word" where "CERTERR_OTHER = 128"

lemmas certerr_defs =
  CERTERR_VALID_def CERTERR_EXPIRED_def CERTERR_NOTYETVALID_def CERTERR_REVOKED_def
  CERTERR_NOTTRUSTED_def CERTERR_HOSTNAME_def CERTERR_SIGNERNOTCA_def
  CERTERR_INSECUREALG_def CERTERR_OTHER_def

text \<open>
  The flags of \<open>gnutls_certificate_status_t\<close> that the file tests. They are declared in
  the GnuTLS header, which is outside the repository; the values are those of
  \<open>gnutls/gnutls.h\<close> (bits 1, 5, 6, 7 and 8).
\<close>

definition GNUTLS_CERT_INVALID :: "32 word" where "GNUTLS_CERT_INVALID = 2"
definition GNUTLS_CERT_REVOKED :: "32 word" where "GNUTLS_CERT_REVOKED = 32"
definition GNUTLS_CERT_SIGNER_NOT_FOUND :: "32 word" where "GNUTLS_CERT_SIGNER_NOT_FOUND = 64"
definition GNUTLS_CERT_SIGNER_NOT_CA :: "32 word" where "GNUTLS_CERT_SIGNER_NOT_CA = 128"
definition GNUTLS_CERT_INSECURE_ALGORITHM :: "32 word" where
  "GNUTLS_CERT_INSECURE_ALGORITHM = 256"

lemmas gnutls_defs =
  GNUTLS_CERT_INVALID_def GNUTLS_CERT_REVOKED_def GNUTLS_CERT_SIGNER_NOT_FOUND_def
  GNUTLS_CERT_SIGNER_NOT_CA_def GNUTLS_CERT_INSECURE_ALGORITHM_def

section \<open>Certificates, configuration and state\<close>

text \<open>
  A certificate is the \<open>gnutls_datum_t\<close> of the peer list together with what the library
  derives from it: whether the DER import succeeds, the two validity times, the answer
  of \<open>gnutls_x509_crt_check_hostname\<close>, the MD5 digest of \<open>gnutls_fingerprint\<close> (\<open>None\<close>
  when that call fails) and the text of \<open>gnutls_pem_base64_encode_alloc\<close> (\<open>None\<close> when it
  fails).
\<close>

record certificate =
  der :: "8 word list"
  crt_import_ok :: bool
  expiration_time :: int
  activation_time :: int
  check_hostname :: "string \<Rightarrow> bool"
  fingerprint_md5 :: "8 word list option"
  pem_encoding :: "string option"

text \<open>What \<open>gnutls_certificate_verify_peers2\<close> and \<open>gnutls_certificate_type_get\<close> report.\<close>

record verify_result =
  verify_ret :: int
  verify_status :: "32 word"
  type_is_x509 :: bool

text \<open>What the user does in front of one certificate dialog.\<close>

datatype menu_event = Key char | Op_exit | Abort | Op_other

record dialog =
  dlg_idx :: nat
  dlg_len :: nat
  dlg_certerr :: "32 word"
  dlg_keys :: string

text \<open>
  The configuration, the clock and the collaborators the functions call. The two policy
  variables are true when they differ from \<open>MUTT_NO\<close>; \<open>C_CertificateFile\<close> is the path or
  \<open>None\<close> for a null pointer. The outcomes of the append-mode open and of \<open>fwrite\<close> are
  given for the chain index of the certificate being saved.
\<close>

record tls_env =
  C_SslVerifyDates :: bool
  C_SslVerifyHost :: bool
  C_CertificateFile :: "string option"
  date_epoch :: int
  crt_init_ok :: bool
  regcomp_ok :: bool
  pem_base64_decode :: "string \<Rightarrow> 8 word list option"
  fopen_append_ok :: "nat \<Rightarrow> bool"
  fwrite_ok :: "nat \<Rightarrow> bool"
  trust_mem_rc :: "nat \<Rightarrow> int"
  verify_peers2 :: "8 word list list \<Rightarrow> verify_result"
  menu_input :: "dialog \<Rightarrow> menu_event list"

text \<open>
  What the run leaves behind: a dialog shown for a chain index (with the bitmap and the
  keys offered), the warning that the certificate could not be saved, the message that
  it was saved, a certificate handed to the trust set and the verification that follows.
\<close>

datatype event =
    Ev_menu nat "32 word" string
  | Ev_warning_not_saved
  | Ev_message_saved
  | Ev_trust nat
  | Ev_reverify nat

text \<open>
  The state the functions change: the text of the certificate file (\<open>None\<close> when it does
  not exist), the certificates handed to \<open>gnutls_certificate_set_x509_trust_mem\<close>, in
  order, and the trace of events.
\<close>

record tls_state =
  cert_file :: "string option"
  trust_mem :: "8 word list list"
  trace :: "event list"

definition fopen_read :: "tls_env \<Rightarrow> tls_state \<Rightarrow> string option" where
  "fopen_read env st = (case C_CertificateFile env of None \<Rightarrow> None | Some p \<Rightarrow> cert_file st)"

section \<open>Fingerprints\<close>

definition hex_digit :: "nat \<Rightarrow> char" where
  "hex_digit n = ''0123456789ABCDEF'' ! (n mod 16)"

definition hex_octet :: "8 word \<Rightarrow> string" where
  "hex_octet b = [hex_digit (unat b div 16), hex_digit (unat b mod 16)]"

text \<open>The loop of \<open>tls_fingerprint\<close>: \<open>%02X\<close> for each octet, a space after every odd index.\<close>

fun fingerprint_loop :: "nat \<Rightarrow> 8 word list \<Rightarrow> string" where
  "fingerprint_loop i [] = []"
| "fingerprint_loop i (b # bs) =
     hex_octet b @ (if odd i then '' '' else []) @ fingerprint_loop (Suc i) bs"

text \<open>
  \<open>tls_fingerprint\<close> for a buffer of \<open>buflen\<close> bytes that starts empty:
  \<open>mutt_str_strcat\<close> keeps at most \<open>buflen - 1\<close> characters, and the final assignment
  cuts the text at index \<open>2 * n + n / 2 - 1\<close>.
\<close>

definition tls_fingerprint :: "nat \<Rightarrow> 8 word list option \<Rightarrow> string" where
  "tls_fingerprint buflen md =
     (case md of
        None \<Rightarrow> take (buflen - 1) ''[unable to calculate]''
      | Some m \<Rightarrow>
          take (2 * length m + length m div 2 - 1)
            (take (buflen - 1) (fingerprint_loop 0 m)))"

section \<open>Hostname lines of the certificate file\<close>

definition newline :: char where "newline = CHR 0x0A"
definition carriage_return :: char where "carriage_return = CHR 0x0D"
definition tab :: char where "tab = CHR 0x09"
definition backslash :: char where "backslash = CHR 0x5C"

definition strip_cr :: "string \<Rightarrow> string" where
  "strip_cr s = (if s \<noteq> [] \<and> last s = carriage_return then butlast s else s)"

text \<open>
  Modelled from the spec: \<open>mutt_file_read_line\<close> (\<open>mutt/file.c\<close>, not under \<open>src/\<close>), called
  with no flags on the line-oriented certificate file. It returns the lines in order,
  each without its line feed and without a carriage return before the line feed; a last
  line that has no line feed is returned as it is.
\<close>

fun read_lines :: "string \<Rightarrow> string \<Rightarrow> string list" where
  "read_lines cur [] = (if cur = [] then [] else [cur])"
| "read_lines cur (c # cs) =
     (if c = newline then strip_cr cur # read_lines [] cs else read_lines (cur @ [c]) cs)"

text \<open>
  The bracket expressions of the pattern compiled by \<open>REG_COMP\<close> with \<open>REG_ICASE\<close>:
  \<open>[a-zA-Z0-9_\.-]\<close> (inside a POSIX bracket expression the backslash stands for itself)
  and \<open>[0-9A-F]\<close>, which matches the lower-case letters too.
\<close>

definition host_class :: "char \<Rightarrow> bool" where
  "host_class c =
     (c \<in> set ''abcdefghijklmnopqrstuvwxyzABCDEFGHIJKLMNOPQRSTUVWXYZ0123456789_.-''
      \<or> c = backslash)"

definition hex_class :: "char \<Rightarrow> bool" where
  "hex_class c = (c \<in> set ''0123456789ABCDEFabcdef'')"

definition blank_class :: "char \<Rightarrow> bool" where
  "blank_class c = (c = CHR '' '' \<or> c = tab)"

definition hex_quad :: "string \<Rightarrow> bool" where
  "hex_quad s = (length s = 4 \<and> list_all hex_class s)"

text \<open>\<open>( [0-9A-F]{4}){n}\<close> matching the whole of the text.\<close>

fun spaced_quads :: "nat \<Rightarrow> string \<Rightarrow> bool" where
  "spaced_quads 0 s = (s = [])"
| "spaced_quads (Suc n) s =
     (case s of
        [] \<Rightarrow> False
      | c # r \<Rightarrow> c = CHR '' '' \<and> hex_quad (take 4 r) \<and> spaced_quads n (drop 4 r))"

definition digest_re :: "string \<Rightarrow> bool" where
  "digest_re s = (hex_quad (take 4 s) \<and> spaced_quads 7 (drop 4 s))"

text \<open>
  \<open>regexec\<close> of the pattern
  \<open>^#H ([a-zA-Z0-9_\.-]+) ([0-9A-F]{4}( [0-9A-F]{4}){7})[ \t]*$\<close> on one line: the two
  submatches when the line matches. The host name ends at the first character outside
  its class, which has to be the space, so the split is unique.
\<close>

definition regexec_pin :: "string \<Rightarrow> (string \<times> string) option" where
  "regexec_pin linestr =
     (if take 1 linestr = ''#'' \<and> (take 1 (drop 1 linestr) = ''H'' \<or> take 1 (drop 1 linestr) = ''h'')
         \<and> take 1 (drop 2 linestr) = '' ''
      then
        (let rest = drop 3 linestr;
             h = takeWhile host_class rest;
             r = dropWhile host_class rest
         in if h = [] \<or> take 1 r \<noteq> '' '' then None
            else if digest_re (take 39 (drop 1 r)) \<and> list_all blank_class (drop 40 r)
            then Some (h, take 39 (drop 1 r))
            else None)
      else None)"

text \<open>The \<open>while\<close> loop of \<open>tls_check_stored_hostname\<close> over the lines read.\<close>

fun stored_hostname_loop :: "string list \<Rightarrow> string \<Rightarrow> string \<Rightarrow> int" where
  "stored_hostname_loop [] hostname buf = 0"
| "stored_hostname_loop (linestr # others) hostname buf =
     (if take 2 linestr = ''#H'' then
        (case regexec_pin linestr of
           None \<Rightarrow> stored_hostname_loop others hostname buf
         | Some (h, d) \<Rightarrow>
             if h = hostname \<and> d = buf then 1
             else stored_hostname_loop others hostname buf)
      else stored_hostname_loop others hostname buf)"

definition tls_check_stored_hostname :: "tls_env \<Rightarrow> tls_state \<Rightarrow> certificate \<Rightarrow> string \<Rightarrow> int" where
  "tls_check_stored_hostname env st cert hostname =
     (case fopen_read env st of
        None \<Rightarrow> 0
      | Some content \<Rightarrow>
          if \<not> regcomp_ok env then 0
          else stored_hostname_loop (read_lines [] content) hostname
                 (tls_fingerprint 80 (fingerprint_md5 cert)))"

section \<open>Saved certificates\<close>

definition CERT_SEP :: string where "CERT_SEP = ''-----BEGIN''"

text \<open>\<open>strstr\<close>: the text from the first occurrence of the needle on.\<close>

fun strstr :: "string \<Rightarrow> string \<Rightarrow> string option" where
  "strstr [] needle = (if needle = [] then Some [] else None)"
| "strstr (c # cs) needle =
     (if take (length needle) (c # cs) = needle then Some (c # cs) else strstr cs needle)"

lemma strstr_length: "strstr hay needle = Some p \<Longrightarrow> length p \<le> length hay"
  by (induction hay) (auto split: if_splits)

lemma strstr_sep_nonempty: "strstr hay CERT_SEP = Some p \<Longrightarrow> p \<noteq> []"
  by (induction hay) (auto simp: CERT_SEP_def split: if_splits)

text \<open>
  The \<open>do ... while (ptr)\<close> loop of \<open>tls_compare_certificates\<close> over the rest of the file:
  decode the first block, step to the next separator, compare.
\<close>

function compare_loop :: "(string \<Rightarrow> 8 word list option) \<Rightarrow> 8 word list \<Rightarrow> string \<Rightarrow> int" where
  "compare_loop decode peer b64 =
     (case decode b64 of
        None \<Rightarrow> 0
      | Some cert \<Rightarrow>
          (case strstr b64 CERT_SEP of
             None \<Rightarrow> 0
           | Some p \<Rightarrow>
               if cert = peer then 1
               else (case strstr (tl p) CERT_SEP of
                       None \<Rightarrow> 0
                     | Some q \<Rightarrow> compare_loop decode peer q)))"
  by pat_completeness auto
termination
proof (relation "measure (\<lambda>(decode, peer, b64). length b64)", goal_cases)
  case 1
  show ?case by simp
next
  case (2 decode peer b64 cert p q)
  have "p \<noteq> []" using 2 by (auto dest: strstr_sep_nonempty)
  moreover have "length p \<le> length b64" using 2 by (auto dest: strstr_length)
  moreover have "length q \<le> length (tl p)" using 2 by (auto dest: strstr_length)
  ultimately show ?case by (cases p) auto
qed

declare compare_loop.simps [simp del]

definition tls_compare_certificates :: "tls_env \<Rightarrow> tls_state \<Rightarrow> certificate \<Rightarrow> int" where
  "tls_compare_certificates env st peercert =
     (case fopen_read env st of
        None \<Rightarrow> 0
      | Some content \<Rightarrow> compare_loop (pem_base64_decode env) (der peercert) content)"

section \<open>Preauthentication of one certificate\<close>

datatype preauth_exit = Exit_init_error | Exit_import_error | Exit_saved_valid | Exit_checked

record preauth_result =
  pa_rc :: int
  pa_certerr :: "32 word"
  pa_savedcert :: int
  pa_exit :: preauth_exit

text \<open>The date checks of \<open>tls_check_preauth\<close>.\<close>

definition preauth_dates :: "tls_env \<Rightarrow> certificate \<Rightarrow> 32 word \<Rightarrow> 32 word" where
  "preauth_dates env cert e =
     (if C_SslVerifyDates env then
        (let e1 = (if expiration_time cert < date_epoch env then e OR CERTERR_EXPIRED else e)
         in if activation_time cert > date_epoch env then e1 OR CERTERR_NOTYETVALID else e1)
      else e)"

text \<open>The host name check, made for the certificate at chain index 0 only.\<close>

definition preauth_hostname ::
  "tls_env \<Rightarrow> tls_state \<Rightarrow> certificate \<Rightarrow> string \<Rightarrow> nat \<Rightarrow> 32 word \<Rightarrow> 32 word" where
  "preauth_hostname env st cert hostname chainidx e =
     (if chainidx = 0 \<and> C_SslVerifyHost env \<and> \<not> check_hostname cert hostname
         \<and> tls_check_stored_hostname env st cert hostname = 0
      then e OR CERTERR_HOSTNAME else e)"

text \<open>The bits gathered before the certificate file is consulted, and the status left.\<close>

definition preauth_early ::
  "tls_env \<Rightarrow> tls_state \<Rightarrow> certificate \<Rightarrow> 32 word \<Rightarrow> string \<Rightarrow> nat \<Rightarrow> 32 word \<times> 32 word" where
  "preauth_early env st cert certstat hostname chainidx =
     (let e = preauth_hostname env st cert hostname chainidx
                (preauth_dates env cert CERTERR_VALID)
      in if certstat AND GNUTLS_CERT_REVOKED \<noteq> 0
         then (e OR CERTERR_REVOKED, certstat XOR GNUTLS_CERT_REVOKED)
         else (e, certstat))"

text \<open>One \<open>if (certstat & flag)\<close> block: set the error bit and clear the flag.\<close>

definition map_flag :: "32 word \<Rightarrow> 32 word \<Rightarrow> 32 word \<times> 32 word \<Rightarrow> 32 word \<times> 32 word" where
  "map_flag flag bit_set ec =
     (if snd ec AND flag \<noteq> 0 then (fst ec OR bit_set, snd ec XOR flag) else ec)"

text \<open>The bits taken from the rest of the library status, with the check for leftovers.\<close>

definition preauth_status :: "32 word \<times> 32 word \<Rightarrow> 32 word" where
  "preauth_status ec =
     (let ec4 = map_flag GNUTLS_CERT_INSECURE_ALGORITHM CERTERR_INSECUREALG
                  (map_flag GNUTLS_CERT_SIGNER_NOT_CA CERTERR_SIGNERNOTCA
                    (map_flag GNUTLS_CERT_SIGNER_NOT_FOUND CERTERR_NOTTRUSTED
                      (map_flag GNUTLS_CERT_INVALID CERTERR_NOTTRUSTED ec)))
      in if snd ec4 \<noteq> 0 then fst ec4 OR CERTERR_OTHER else fst ec4)"

definition tls_check_preauth ::
  "tls_env \<Rightarrow> tls_state \<Rightarrow> certificate \<Rightarrow> 32 word \<Rightarrow> string \<Rightarrow> nat \<Rightarrow> preauth_result" where
  "tls_check_preauth env st certdata certstat hostname chainidx =
     (if \<not> crt_init_ok env then
        \<lparr>pa_rc = - 1, pa_certerr = CERTERR_VALID, pa_savedcert = 0, pa_exit = Exit_init_error\<rparr>
      else if \<not> crt_import_ok certdata then
        \<lparr>pa_rc = - 1, pa_certerr = CERTERR_VALID, pa_savedcert = 0, pa_exit = Exit_import_error\<rparr>
      else
        (let ec = preauth_early env st certdata certstat hostname chainidx;
             saved = (if tls_compare_certificates env st certdata \<noteq> 0 then 1 else 0)
         in if saved = 1 \<and> fst ec = CERTERR_VALID then
              \<lparr>pa_rc = 0, pa_certerr = fst ec, pa_savedcert = 1, pa_exit = Exit_saved_valid\<rparr>
            else
              (let e = preauth_status ec
               in \<lparr>pa_rc = (if e = CERTERR_VALID then 0 else - 1), pa_certerr = e,
                    pa_savedcert = saved, pa_exit = Exit_checked\<rparr>)))"

section \<open>Verification by the library\<close>

definition GNUTLS_E_NO_CERTIFICATE_FOUND :: "32 word" where
  "GNUTLS_E_NO_CERTIFICATE_FOUND = - 49"

definition tls_verify_peers :: "verify_result \<Rightarrow> 32 word" where
  "tls_verify_peers r =
     (if verify_ret r = 0 then verify_status r
      else if verify_status r = GNUTLS_E_NO_CERTIFICATE_FOUND then 0
      else if verify_ret r < 0 then 0
      else if \<not> type_is_x509 r then 0
      else verify_status r)"

section \<open>The interactive check of one certificate\<close>

fun strchr_index :: "string \<Rightarrow> char \<Rightarrow> nat option" where
  "strchr_index [] c = None"
| "strchr_index (k # ks) c = (if k = c then Some 0 else map_option Suc (strchr_index ks c))"

text \<open>
  The values of \<open>mutt_menu_loop\<close> that the \<open>switch\<close> tells apart: \<open>-1\<close>, \<open>OP_EXIT\<close>,
  \<open>OP_MAX + n\<close>, and any other operation.
\<close>

datatype menu_rc = Rc_abort | Rc_op_exit | Rc_op_max_plus nat | Rc_op_other

text \<open>
  Modelled from the spec: \<open>mutt_menu_loop\<close> (\<open>menu.c\<close>, not under \<open>src/\<close>) on a dialog
  menu, which collects the choice among the keys the caller offers. A key found in
  \<open>menu->keys\<close> at position \<open>p\<close> (from 0) gives \<open>OP_MAX + p + 1\<close>; a key that is not
  offered gives no choice.
\<close>

definition mutt_menu_loop :: "string \<Rightarrow> menu_event \<Rightarrow> menu_rc" where
  "mutt_menu_loop keys ev =
     (case ev of
        Abort \<Rightarrow> Rc_abort
      | Op_exit \<Rightarrow> Rc_op_exit
      | Op_other \<Rightarrow> Rc_op_other
      | Key c \<Rightarrow>
          (case strchr_index keys c of
             None \<Rightarrow> Rc_op_other
           | Some p \<Rightarrow> Rc_op_max_plus (p + 1)))"

text \<open>The line that \<open>fprintf(fp, "#H %s %s\n", hostname, fpbuf)\<close> prints.\<close>

definition hostname_line :: "string \<Rightarrow> string \<Rightarrow> string" where
  "hostname_line hostname fpbuf = ''#H '' @ hostname @ '' '' @ fpbuf @ [newline]"

text \<open>
  The two blocks under \<open>if (fp)\<close> of the accept-always case. Each takes and returns the
  pair of \<open>done\<close> and the text of the file. The text is what the file holds when every
  byte handed to the stream reaches it. The source does not look at the result of
  \<open>fprintf\<close> nor at that of \<open>mutt_file_fclose\<close>: it sets \<open>done\<close> to 1 after the host name
  line whatever became of it, so a write that is lost there is no branch of the source
  and none of these definitions. The only write whose failure the source sees is the
  \<open>fwrite\<close> of the PEM block: that branch leaves \<open>done\<close> at 0 and the text as it was,
  and no theorem below rests on it.
\<close>

definition save_hostname :: "certificate \<Rightarrow> 32 word \<Rightarrow> string \<Rightarrow> int \<times> string \<Rightarrow> int \<times> string" where
  "save_hostname certdata certerr hostname df =
     (if certerr AND CERTERR_HOSTNAME \<noteq> 0
      then (1, snd df @ hostname_line hostname (tls_fingerprint 128 (fingerprint_md5 certdata)))
      else df)"

definition save_pem :: "tls_env \<Rightarrow> certificate \<Rightarrow> 32 word \<Rightarrow> nat \<Rightarrow> int \<times> string \<Rightarrow> int \<times> string" where
  "save_pem env certdata certerr idx df =
     (if certerr XOR CERTERR_HOSTNAME \<noteq> 0 then
        (case pem_encoding certdata of
           None \<Rightarrow> (0, snd df)
         | Some pemdata \<Rightarrow> if fwrite_ok env idx then (1, snd df @ pemdata) else (0, snd df))
      else df)"

text \<open>
  The accept-always case up to the fall-through: open the file for appending (which
  creates it), write, and report. The result is \<open>done\<close> before the fall-through and the
  new state.
\<close>

definition accept_always ::
  "tls_env \<Rightarrow> certificate \<Rightarrow> 32 word \<Rightarrow> string \<Rightarrow> nat \<Rightarrow> tls_state \<Rightarrow> int \<times> tls_state" where
  "accept_always env certdata certerr hostname idx st =
     (if C_CertificateFile env \<noteq> None \<and> fopen_append_ok env idx then
        (let df = save_pem env certdata certerr idx
                    (save_hostname certdata certerr hostname
                      (0, case cert_file st of None \<Rightarrow> [] | Some content \<Rightarrow> content))
         in (fst df,
             st\<lparr>cert_file := Some (snd df),
                trace := trace st @ [if fst df = 0 then Ev_warning_not_saved else Ev_message_saved]\<rparr>))
      else (0, st\<lparr>trace := trace st @ [Ev_warning_not_saved]\<rparr>))"

text \<open>
  The \<open>while (done == 0)\<close> loop over what the user does. It returns \<open>done\<close> and the new
  state; when the user never makes a choice the loop does not return.
\<close>

fun menu_while ::
  "tls_env \<Rightarrow> certificate \<Rightarrow> 32 word \<Rightarrow> string \<Rightarrow> nat \<Rightarrow> string \<Rightarrow> menu_event list
   \<Rightarrow> tls_state \<Rightarrow> (int \<times> tls_state) option" where
  "menu_while env certdata certerr hostname idx keys [] st = None"
| "menu_while env certdata certerr hostname idx keys (ev # evs) st =
     (case mutt_menu_loop keys ev of
        Rc_abort \<Rightarrow> Some (1, st)
      | Rc_op_exit \<Rightarrow> Some (1, st)
      | Rc_op_other \<Rightarrow> menu_while env certdata certerr hostname idx keys evs st
      | Rc_op_max_plus n \<Rightarrow>
          if n = 1 then Some (1, st)
          else if n = 3 then Some (2, snd (accept_always env certdata certerr hostname idx st))
          else if n = 2 then Some (2, st)
          else menu_while env certdata certerr hostname idx keys evs st)"

text \<open>The keys of the prompt: accept-always is among them under the guard of the source.\<close>

definition menu_keys :: "tls_env \<Rightarrow> 32 word \<Rightarrow> int \<Rightarrow> string" where
  "menu_keys env certerr savedcert =
     (if C_CertificateFile env \<noteq> None \<and> savedcert = 0
         \<and> certerr AND (CERTERR_EXPIRED OR CERTERR_NOTYETVALID OR CERTERR_REVOKED) = 0
      then ''roa'' else ''ro'')"

definition tls_check_one_certificate ::
  "tls_env \<Rightarrow> certificate \<Rightarrow> 32 word \<Rightarrow> string \<Rightarrow> nat \<Rightarrow> nat \<Rightarrow> tls_state
   \<Rightarrow> (int \<times> tls_state) option" where
  "tls_check_one_certificate env certdata certstat hostname idx len st =
     (let pa = tls_check_preauth env st certdata certstat hostname idx
      in if pa_rc pa = 0 then Some (1, st)
         else if \<not> crt_init_ok env then Some (0, st)
         else if \<not> crt_import_ok certdata then Some (0, st)
         else
           (let keys = menu_keys env (pa_certerr pa) (pa_savedcert pa);
                d = \<lparr>dlg_idx = idx, dlg_len = len, dlg_certerr = pa_certerr pa, dlg_keys = keys\<rparr>;
                st1 = st\<lparr>trace := trace st @ [Ev_menu idx (pa_certerr pa) keys]\<rparr>
            in case menu_while env certdata (pa_certerr pa) hostname idx keys (menu_input env d) st1 of
                 None \<Rightarrow> None
               | Some (done, st2) \<Rightarrow> Some (if done = 2 then 1 else 0, st2)))"

section \<open>The check of the chain\<close>

record connection =
  account_host :: string
  auth_is_certificate :: bool
  peers :: "certificate list option"

datatype loop_exit = Loop_return int | Loop_end int int

text \<open>
  The first loop of \<open>tls_check_certificate\<close>, from the leaf up: \<open>Loop_return\<close> is the
  \<open>return 1\<close> inside the loop, \<open>Loop_end rcpeer rc\<close> the fall to the second loop, by the
  \<open>break\<close> or at the end of the list.
\<close>

fun preauth_loop ::
  "tls_env \<Rightarrow> tls_state \<Rightarrow> 32 word \<Rightarrow> string \<Rightarrow> certificate list \<Rightarrow> nat \<Rightarrow> int \<Rightarrow> int \<Rightarrow> int
   \<Rightarrow> loop_exit" where
  "preauth_loop env st certstat host [] i preauthrc rcpeer rc = Loop_end rcpeer rc"
| "preauth_loop env st certstat host (c # cs) i preauthrc rcpeer rc =
     (let pa = tls_check_preauth env st c certstat host i;
          rcpeer1 = (if i = 0 then pa_rc pa else rcpeer)
      in if pa_savedcert pa \<noteq> 0 then
           (if preauthrc + pa_rc pa = 0 then Loop_return 1 else Loop_end rcpeer1 (pa_rc pa))
         else preauth_loop env st certstat host cs (Suc i) (preauthrc + pa_rc pa) rcpeer1 (pa_rc pa))"

text \<open>Handing a signer to the trust set and verifying again.\<close>

definition trust_and_reverify :: "tls_env \<Rightarrow> certificate \<Rightarrow> nat \<Rightarrow> tls_state \<Rightarrow> 32 word \<times> tls_state" where
  "trust_and_reverify env certdata i st =
     (let anchors = trust_mem st @ [der certdata]
      in (tls_verify_peers (verify_peers2 env anchors),
          st\<lparr>trust_mem := anchors, trace := trace st @ [Ev_trust i, Ev_reverify i]\<rparr>))"

text \<open>
  The second loop, from the root down; the first argument after the list is \<open>i + 1\<close>.
  The list is indexed below its length only.
\<close>

fun interactive_loop ::
  "tls_env \<Rightarrow> string \<Rightarrow> certificate list \<Rightarrow> int \<Rightarrow> nat \<Rightarrow> 32 word \<Rightarrow> int \<Rightarrow> tls_state
   \<Rightarrow> (int \<times> tls_state) option" where
  "interactive_loop env host cert_list rcpeer 0 certstat rc st = Some (rc, st)"
| "interactive_loop env host cert_list rcpeer (Suc i) certstat rc st =
     (case tls_check_one_certificate env (cert_list ! i) certstat host i (length cert_list) st of
        None \<Rightarrow> None
      | Some (rc1, st1) \<Rightarrow>
          if i \<noteq> 0 \<and> rc1 \<noteq> 0 then
            (let (certstat2, st2) = trust_and_reverify env (cert_list ! i) i st1
             in if certstat2 = 0 \<and> rcpeer = 0 then Some (1, st2)
                else interactive_loop env host cert_list rcpeer i certstat2 (trust_mem_rc env i) st2)
          else interactive_loop env host cert_list rcpeer i certstat rc1 st1)"

definition tls_check_certificate :: "tls_env \<Rightarrow> connection \<Rightarrow> tls_state \<Rightarrow> (int \<times> tls_state) option" where
  "tls_check_certificate env conn st =
     (if \<not> auth_is_certificate conn then Some (0, st)
      else
        (let certstat = tls_verify_peers (verify_peers2 env (trust_mem st))
         in case peers conn of
              None \<Rightarrow> Some (0, st)
            | Some cert_list \<Rightarrow>
                (case preauth_loop env st certstat (account_host conn) cert_list 0 0 (- 1) 0 of
                   Loop_return r \<Rightarrow> Some (r, st)
                 | Loop_end rcpeer rc \<Rightarrow>
                     interactive_loop env (account_host conn) cert_list rcpeer
                       (length cert_list) certstat rc st)))"

text \<open>The text of the certificate file before a write; a missing file reads as empty.\<close>

definition old_content :: "tls_state \<Rightarrow> string" where
  "old_content st = (case cert_file st of None \<Rightarrow> [] | Some content \<Rightarrow> content)"

text \<open>
  The host name record a line stands for in the loop: the line passes the test of its
  first two characters and the pattern matches.
\<close>

definition pin_of_line :: "string \<Rightarrow> (string \<times> string) option" where
  "pin_of_line linestr = (if take 2 linestr = ''#H'' then regexec_pin linestr else None)"

text \<open>
  The reading of the specification for a host name record: the host names are compared
  without regard to the case of ASCII letters, the digests exactly.
\<close>

definition lower_char :: "char \<Rightarrow> char" where
  "lower_char c =
     (case strchr_index ''ABCDEFGHIJKLMNOPQRSTUVWXYZ'' c of
        None \<Rightarrow> c
      | Some k \<Rightarrow> ''abcdefghijklmnopqrstuvwxyz'' ! k)"

definition spec_matchHostnamePin :: "string list \<Rightarrow> string \<Rightarrow> string \<Rightarrow> bool" where
  "spec_matchHostnamePin records hostname digestHex =
     list_ex (\<lambda>l. case pin_of_line l of
                    None \<Rightarrow> False
                  | Some (h, dg) \<Rightarrow> map lower_char h = map lower_char hostname \<and> dg = digestHex)
       records"

section \<open>Sample configuration and certificates\<close>

text \<open>
  A stand-in for the PEM decoder of the library: the block that starts at the first
  separator of the text decodes to the octets its first body character names.
\<close>

definition ex_decode :: "string \<Rightarrow> 8 word list option" where
  "ex_decode s =
     (case strstr s CERT_SEP of
        None \<Rightarrow> None
      | Some p \<Rightarrow>
          if take 1 (drop 28 p) = ''L'' then Some [1, 1]
          else if take 1 (drop 28 p) = ''M'' then Some [2, 2]
          else if take 1 (drop 28 p) = ''R'' then Some [3, 3]
          else None)"

definition ex_verify_clean :: verify_result where
  "ex_verify_clean = \<lparr>verify_ret = 0, verify_status = 0, type_is_x509 = True\<rparr>"

definition ex_env :: tls_env where
  "ex_env =
     \<lparr>C_SslVerifyDates = True, C_SslVerifyHost = True,
      C_CertificateFile = Some ''/home/user/.mutt_certificates'',
      date_epoch = 1000, crt_init_ok = True, regcomp_ok = True,
      pem_base64_decode = ex_decode,
      fopen_append_ok = (\<lambda>i. True), fwrite_ok = (\<lambda>i. True), trust_mem_rc = (\<lambda>i. 1),
      verify_peers2 = (\<lambda>anchors. ex_verify_clean),
      menu_input = (\<lambda>d. [])\<rparr>"

definition ex_state :: tls_state where
  "ex_state = \<lparr>cert_file = None, trust_mem = [], trace = []\<rparr>"

definition ex_md5 :: "8 word list" where
  "ex_md5 = [0, 1, 2, 3, 4, 5, 6, 7, 8, 9, 10, 11, 12, 13, 14, 255]"

definition ex_host :: string where "ex_host = ''mail.example.org''"
definition ex_other_host :: string where "ex_other_host = ''other.example.org''"

definition ex_leaf_pem :: string where
  "ex_leaf_pem = ''-----BEGIN CERTIFICATE-----'' @ [newline] @ ''LEAF'' @ [newline]
        @ ''-----END CERTIFICATE-----'' @ [newline]"

text \<open>A leaf whose names match \<open>ex_host\<close> only.\<close>

definition ex_leaf :: certificate where
  "ex_leaf =
     \<lparr>der = [1, 1], crt_import_ok = True, expiration_time = 2000, activation_time = 500,
      check_hostname = (\<lambda>h. h = ex_host), fingerprint_md5 = Some ex_md5,
      pem_encoding = Some ex_leaf_pem\<rparr>"

text \<open>A state whose certificate file holds the leaf.\<close>

definition ex_pinned_state :: tls_state where
  "ex_pinned_state = \<lparr>cert_file = Some ex_leaf_pem, trust_mem = [], trace = []\<rparr>"

definition ex_env_always :: tls_env where
  "ex_env_always = ex_env\<lparr>menu_input := (\<lambda>d. [Key (CHR ''a'')])\<rparr>"

definition ex_env_always_then_once :: tls_env where
  "ex_env_always_then_once = ex_env\<lparr>menu_input := (\<lambda>d. [Key (CHR ''a''), Key (CHR ''o'')])\<rparr>"

definition ex_expired :: certificate where
  "ex_expired = ex_leaf\<lparr>expiration_time := 900\<rparr>"

definition ex_fpbuf :: string where
  "ex_fpbuf = ''0001 0203 0405 0607 0809 0A0B 0C0D 0EFF''"

definition ex_mid :: certificate where
  "ex_mid =
     \<lparr>der = [2, 2], crt_import_ok = True, expiration_time = 900, activation_time = 500,
      check_hostname = (\<lambda>h. False), fingerprint_md5 = Some ex_md5, pem_encoding = None\<rparr>"

definition ex_root :: certificate where
  "ex_root =
     \<lparr>der = [3, 3], crt_import_ok = True, expiration_time = 2000, activation_time = 500,
      check_hostname = (\<lambda>h. False), fingerprint_md5 = Some ex_md5, pem_encoding = None\<rparr>"

definition ex_verify_invalid :: verify_result where
  "ex_verify_invalid = \<lparr>verify_ret = 0, verify_status = GNUTLS_CERT_INVALID, type_is_x509 = True\<rparr>"


definition ex_env_accept_once :: tls_env where
  "ex_env_accept_once =
     ex_env\<lparr>verify_peers2 := (\<lambda>anchors. if anchors = [] then ex_verify_invalid else ex_verify_clean),
            menu_input := (\<lambda>d. [Key (CHR ''o'')])\<rparr>"

definition ex_conn1 :: connection where
  "ex_conn1 = \<lparr>account_host = ex_host, auth_is_certificate = True, peers = Some [ex_leaf]\<rparr>"


definition ex_conn3 :: connection where
  "ex_conn3 = \<lparr>account_host = ex_host, auth_is_certificate = True,
                peers = Some [ex_leaf, ex_mid, ex_root]\<rparr>"

definition ex_pin_state :: tls_state where
  "ex_pin_state = \<lparr>cert_file = Some (hostname_line ex_host ex_fpbuf), trust_mem = [], trace = []\<rparr>"

definition ex_upper_pin_state :: tls_state where
  "ex_upper_pin_state =
     \<lparr>cert_file = Some (hostname_line ''Mail.Example.ORG'' ex_fpbuf), trust_mem = [], trace = []\<rparr>"

definition ex_leaf_other_digest :: certificate where
  "ex_leaf_other_digest =
     ex_leaf\<lparr>fingerprint_md5 := Some [255, 1, 2, 3, 4, 5, 6, 7, 8, 9, 10, 11, 12, 13, 14, 15]\<rparr>"

definition ex_ipv6_host :: string where "ex_ipv6_host = ''::1''"

section \<open>Bits of the error bitmap\<close>

lemma bit4_map_flag:
  "\<not> bit bit_set 4 \<Longrightarrow> bit (fst (map_flag flag bit_set ec)) 4 = bit (fst ec) 4"
  by (simp add: map_flag_def bit_simps)

lemma bit4_other_bits:
  "\<not> bit CERTERR_NOTTRUSTED 4" "\<not> bit CERTERR_SIGNERNOTCA 4"
  "\<not> bit CERTERR_INSECUREALG 4" "\<not> bit CERTERR_OTHER 4"
  "\<not> bit CERTERR_EXPIRED 4" "\<not> bit CERTERR_NOTYETVALID 4"
  "\<not> bit CERTERR_REVOKED 4" "\<not> bit CERTERR_VALID 4"
  by (simp_all add: certerr_defs bit_simps)

lemma bit4_preauth_status: "bit (preauth_status ec) 4 = bit (fst ec) 4"
  by (simp add: preauth_status_def Let_def bit4_map_flag bit4_other_bits bit_simps)

lemma bit4_preauth_dates: "bit (preauth_dates env cert e) 4 = bit e 4"
  by (simp add: preauth_dates_def Let_def bit4_other_bits bit_simps)

lemma bit4_preauth_early:
  "bit (fst (preauth_early env st cert certstat hostname chainidx)) 4 \<Longrightarrow> chainidx = 0"
  by (auto simp: preauth_early_def preauth_hostname_def Let_def bit4_preauth_dates
      bit4_other_bits bit_simps split: if_splits)

lemma hostname_bit_iff: "(e AND CERTERR_HOSTNAME \<noteq> 0) = bit e 4"
proof -
  have "(16 :: 32 word) = push_bit 4 1" by simp
  then show ?thesis
    unfolding CERTERR_HOSTNAME_def by (simp only: and_exp_eq_0_iff_not_bit push_bit_of_1) simp
qed

lemma early_bits:
  "(fst (preauth_early env st c cs h i) AND
      (CERTERR_EXPIRED OR CERTERR_NOTYETVALID OR CERTERR_REVOKED OR CERTERR_HOSTNAME) = 0)
   = (fst (preauth_early env st c cs h i) = CERTERR_VALID)"
  by (simp add: preauth_early_def preauth_hostname_def preauth_dates_def Let_def certerr_defs)

lemma early_revoked:
  "cs AND GNUTLS_CERT_REVOKED \<noteq> 0 \<Longrightarrow> fst (preauth_early env st c cs h i) \<noteq> CERTERR_VALID"
  by (simp add: preauth_early_def certerr_defs or_eq_0_iff Let_def)

lemma early_hostname:
  "i = 0 \<Longrightarrow> C_SslVerifyHost env \<Longrightarrow> \<not> check_hostname c h \<Longrightarrow>
   tls_check_stored_hostname env st c h = 0 \<Longrightarrow>
   fst (preauth_early env st c cs h i) \<noteq> CERTERR_VALID"
  by (simp add: preauth_early_def preauth_hostname_def certerr_defs or_eq_0_iff Let_def)

section \<open>The host name bit belongs to the leaf\<close>

text \<open>
  Claim C7. For every certificate, library status, host name and chain index: when the
  error bitmap that \<open>tls_check_preauth\<close> returns has the \<open>CERTERR_HOSTNAME\<close> bit set, the
  chain index is 0. Intermediate certificates and the root never receive the bit.
\<close>

theorem hostname_bit_only_for_leaf:
  "pa_certerr (tls_check_preauth env st certdata certstat hostname chainidx) AND CERTERR_HOSTNAME \<noteq> 0
   \<Longrightarrow> chainidx = 0"
  unfolding hostname_bit_iff
  by (auto simp: tls_check_preauth_def Let_def bit4_preauth_status bit4_other_bits
      dest: bit4_preauth_early split: if_splits)

theorem hostname_bit_only_for_leaf_witness:
  "pa_certerr (tls_check_preauth ex_env ex_state ex_leaf 0 ex_other_host 0)
     AND CERTERR_HOSTNAME \<noteq> 0 \<and> (0::nat) = 0"
proof -
  have h: "pa_certerr (tls_check_preauth ex_env ex_state ex_leaf 0 ex_other_host 0)
     AND CERTERR_HOSTNAME \<noteq> 0"
    by code_simp
  show ?thesis using hostname_bit_only_for_leaf [OF h] h by simp
qed

section \<open>The short cut for a saved certificate\<close>

text \<open>
  Claim C2, as amended. \<open>tls_check_preauth\<close> leaves through the return for a saved
  certificate (result 0, bitmap \<open>CERTERR_VALID\<close>, saved flag 1) exactly when the
  certificate can be loaded, \<open>tls_compare_certificates\<close> finds it in the certificate file
  and none of \<open>CERTERR_EXPIRED\<close>, \<open>CERTERR_NOTYETVALID\<close>, \<open>CERTERR_REVOKED\<close> and
  \<open>CERTERR_HOSTNAME\<close> has been set by the checks before. A revoked flag in the library
  status always blocks the short cut, and so does a host name mismatch of the leaf.
\<close>

theorem pinned_short_circuit_iff:
  "((pa_exit (tls_check_preauth env st c cs h i) = Exit_saved_valid) =
     (crt_init_ok env \<and> crt_import_ok c \<and> tls_compare_certificates env st c \<noteq> 0 \<and>
      fst (preauth_early env st c cs h i) AND
        (CERTERR_EXPIRED OR CERTERR_NOTYETVALID OR CERTERR_REVOKED OR CERTERR_HOSTNAME) = 0))
   \<and> (pa_exit (tls_check_preauth env st c cs h i) = Exit_saved_valid \<longrightarrow>
        tls_check_preauth env st c cs h i =
          \<lparr>pa_rc = 0, pa_certerr = CERTERR_VALID, pa_savedcert = 1, pa_exit = Exit_saved_valid\<rparr>)
   \<and> (cs AND GNUTLS_CERT_REVOKED \<noteq> 0 \<longrightarrow>
        pa_exit (tls_check_preauth env st c cs h i) \<noteq> Exit_saved_valid)
   \<and> (i = 0 \<and> C_SslVerifyHost env \<and> \<not> check_hostname c h
        \<and> tls_check_stored_hostname env st c h = 0 \<longrightarrow>
        pa_exit (tls_check_preauth env st c cs h i) \<noteq> Exit_saved_valid)"
proof (intro conjI impI)
  show "(pa_exit (tls_check_preauth env st c cs h i) = Exit_saved_valid) =
     (crt_init_ok env \<and> crt_import_ok c \<and> tls_compare_certificates env st c \<noteq> 0 \<and>
      fst (preauth_early env st c cs h i) AND
        (CERTERR_EXPIRED OR CERTERR_NOTYETVALID OR CERTERR_REVOKED OR CERTERR_HOSTNAME) = 0)"
    unfolding early_bits by (simp add: tls_check_preauth_def Let_def)
next
  assume "pa_exit (tls_check_preauth env st c cs h i) = Exit_saved_valid"
  then show "tls_check_preauth env st c cs h i =
          \<lparr>pa_rc = 0, pa_certerr = CERTERR_VALID, pa_savedcert = 1, pa_exit = Exit_saved_valid\<rparr>"
    by (simp add: tls_check_preauth_def Let_def split: if_splits)
next
  assume "cs AND GNUTLS_CERT_REVOKED \<noteq> 0"
  then have "fst (preauth_early env st c cs h i) \<noteq> CERTERR_VALID" by (rule early_revoked)
  then show "pa_exit (tls_check_preauth env st c cs h i) \<noteq> Exit_saved_valid"
    by (simp add: tls_check_preauth_def Let_def)
next
  assume "i = 0 \<and> C_SslVerifyHost env \<and> \<not> check_hostname c h
        \<and> tls_check_stored_hostname env st c h = 0"
  then have "fst (preauth_early env st c cs h i) \<noteq> CERTERR_VALID" by (simp add: early_hostname)
  then show "pa_exit (tls_check_preauth env st c cs h i) \<noteq> Exit_saved_valid"
    by (simp add: tls_check_preauth_def Let_def)
qed

theorem pinned_short_circuit_witness:
  "tls_check_preauth ex_env ex_pinned_state ex_leaf GNUTLS_CERT_INVALID ex_host 0 =
     \<lparr>pa_rc = 0, pa_certerr = CERTERR_VALID, pa_savedcert = 1, pa_exit = Exit_saved_valid\<rparr>
   \<and> pa_exit (tls_check_preauth ex_env ex_pinned_state ex_leaf GNUTLS_CERT_REVOKED ex_host 0)
       \<noteq> Exit_saved_valid
   \<and> pa_exit (tls_check_preauth ex_env ex_pinned_state ex_leaf 0 ex_other_host 0)
       \<noteq> Exit_saved_valid"
proof -
  have a: "crt_init_ok ex_env \<and> crt_import_ok ex_leaf
      \<and> tls_compare_certificates ex_env ex_pinned_state ex_leaf \<noteq> 0
      \<and> fst (preauth_early ex_env ex_pinned_state ex_leaf GNUTLS_CERT_INVALID ex_host 0) AND
        (CERTERR_EXPIRED OR CERTERR_NOTYETVALID OR CERTERR_REVOKED OR CERTERR_HOSTNAME) = 0"
    by code_simp
  have b: "GNUTLS_CERT_REVOKED AND GNUTLS_CERT_REVOKED \<noteq> 0" by code_simp
  have c: "(0::nat) = 0 \<and> C_SslVerifyHost ex_env \<and> \<not> check_hostname ex_leaf ex_other_host
        \<and> tls_check_stored_hostname ex_env ex_pinned_state ex_leaf ex_other_host = 0"
    by code_simp
  show ?thesis
    using pinned_short_circuit_iff [of ex_env ex_pinned_state ex_leaf GNUTLS_CERT_INVALID ex_host 0]
      pinned_short_circuit_iff [of ex_env ex_pinned_state ex_leaf GNUTLS_CERT_REVOKED ex_host 0]
      pinned_short_circuit_iff [of ex_env ex_pinned_state ex_leaf 0 ex_other_host 0]
      a b c
    by blast
qed

text \<open>
  Claim C2 as stated fails: for a saved leaf whose names do not match the host, no date
  or revocation bit is set, yet the short cut is not taken and the bitmap returned is
  \<open>CERTERR_HOSTNAME\<close>.
\<close>

theorem pinned_hostname_mismatch_counterexample:
  "tls_compare_certificates ex_env ex_pinned_state ex_leaf = 1
   \<and> fst (preauth_early ex_env ex_pinned_state ex_leaf 0 ex_other_host 0)
        AND (CERTERR_EXPIRED OR CERTERR_NOTYETVALID OR CERTERR_REVOKED) = 0
   \<and> fst (preauth_early ex_env ex_pinned_state ex_leaf 0 ex_other_host 0) = CERTERR_HOSTNAME
   \<and> tls_check_preauth ex_env ex_pinned_state ex_leaf 0 ex_other_host 0 =
       \<lparr>pa_rc = - 1, pa_certerr = CERTERR_HOSTNAME, pa_savedcert = 1, pa_exit = Exit_checked\<rparr>"
  by code_simp

section \<open>Saving a certificate for always\<close>

lemma word_xor_zero_iff: "((x :: 32 word) XOR y = 0) = (x = y)"
proof
  assume "x XOR y = 0"
  then have "(x XOR y) XOR y = 0 XOR y" by simp
  then show "x = y" by (simp add: xor.assoc)
next
  assume "x = y"
  then show "x XOR y = 0" by simp
qed

lemma menu_loop_key_a: "mutt_menu_loop ''roa'' (Key (CHR ''a'')) = Rc_op_max_plus 3"
  by (simp add: mutt_menu_loop_def)

lemma menu_while_always:
  "menu_while env c ce h idx ''roa'' (Key (CHR ''a'') # evs) st =
     Some (2, snd (accept_always env c ce h idx st))"
  by (simp add: menu_loop_key_a)

text \<open>
  Claim C5, as amended. When the user chooses accept-always and the file can be opened,
  the certificate encoded and the block written, the file gains the host name line
  exactly when the \<open>CERTERR_HOSTNAME\<close> bit is set, and after it the PEM block exactly
  when the bitmap differs from \<open>CERTERR_HOSTNAME\<close> alone. A bitmap with the host name bit
  and another bit therefore gets both records; the dialog then ends with acceptance and
  the message that the certificate was saved.
\<close>

theorem accept_always_appends:
  assumes "C_CertificateFile env \<noteq> None" and "fopen_append_ok env idx"
    and "pem_encoding certdata = Some pemdata" and "fwrite_ok env idx"
  shows "menu_while env certdata certerr hostname idx ''roa'' (Key (CHR ''a'') # evs) st =
     Some (2, st\<lparr>cert_file := Some (old_content st
          @ (if certerr AND CERTERR_HOSTNAME \<noteq> 0
             then hostname_line hostname (tls_fingerprint 128 (fingerprint_md5 certdata)) else [])
          @ (if certerr \<noteq> CERTERR_HOSTNAME then pemdata else [])),
        trace := trace st @ [Ev_message_saved]\<rparr>)"
proof -
  have "certerr = CERTERR_HOSTNAME \<Longrightarrow> certerr AND CERTERR_HOSTNAME \<noteq> 0"
    by (simp add: CERTERR_HOSTNAME_def)
  then show ?thesis
    using assms unfolding menu_while_always
    by (auto simp: accept_always_def save_pem_def save_hostname_def Let_def old_content_def
        word_xor_zero_iff)
qed

theorem accept_always_appends_witness:
  "C_CertificateFile ex_env \<noteq> None \<and> fopen_append_ok ex_env 0
   \<and> pem_encoding ex_leaf = Some ex_leaf_pem \<and> fwrite_ok ex_env 0
   \<and> menu_while ex_env ex_leaf CERTERR_HOSTNAME ex_other_host 0 ''roa'' [Key (CHR ''a'')] ex_state =
       Some (2, \<lparr>cert_file = Some (hostname_line ex_other_host ex_fpbuf), trust_mem = [],
                  trace = [Ev_message_saved]\<rparr>)"
proof -
  have h1: "C_CertificateFile ex_env \<noteq> None" by (simp add: ex_env_def)
  have h2: "fopen_append_ok ex_env 0" by (simp add: ex_env_def)
  have h3: "pem_encoding ex_leaf = Some ex_leaf_pem" by (simp add: ex_leaf_def)
  have h4: "fwrite_ok ex_env 0" by (simp add: ex_env_def)
  have r: "menu_while ex_env ex_leaf CERTERR_HOSTNAME ex_other_host 0 ''roa'' [Key (CHR ''a'')] ex_state
      = Some (2, ex_state\<lparr>cert_file := Some (old_content ex_state
          @ (if CERTERR_HOSTNAME AND CERTERR_HOSTNAME \<noteq> 0
             then hostname_line ex_other_host (tls_fingerprint 128 (fingerprint_md5 ex_leaf)) else [])
          @ (if CERTERR_HOSTNAME \<noteq> CERTERR_HOSTNAME then ex_leaf_pem else [])),
        trace := trace ex_state @ [Ev_message_saved]\<rparr>)" (is "_ = ?rhs")
    by (rule accept_always_appends [OF h1 h2 h3 h4])
  have e: "?rhs = Some (2, \<lparr>cert_file = Some (hostname_line ex_other_host ex_fpbuf), trust_mem = [],
                  trace = [Ev_message_saved]\<rparr>)"
    by code_simp
  from r e have "menu_while ex_env ex_leaf CERTERR_HOSTNAME ex_other_host 0 ''roa'' [Key (CHR ''a'')] ex_state =
       Some (2, \<lparr>cert_file = Some (hostname_line ex_other_host ex_fpbuf), trust_mem = [],
                  trace = [Ev_message_saved]\<rparr>)"
    by (rule trans)
  with h1 h2 h3 h4 show ?thesis by blast
qed

text \<open>
  Claim C5 as stated fails: a leaf that is not trusted and whose names do not match the
  host gets both a host name line and a PEM block, not one record kind.
\<close>

theorem accept_always_both_records_counterexample:
  "tls_check_one_certificate ex_env_always ex_leaf GNUTLS_CERT_INVALID ex_other_host 0 1 ex_state =
     Some (1, \<lparr>cert_file = Some (hostname_line ex_other_host ex_fpbuf @ ex_leaf_pem),
                trust_mem = [],
                trace = [Ev_menu 0 (CERTERR_NOTTRUSTED OR CERTERR_HOSTNAME) ''roa'',
                         Ev_message_saved]\<rparr>)"
  by code_simp

section \<open>Accept-always is not offered for date or revocation defects\<close>

lemma menu_loop_ro: "mutt_menu_loop ''ro'' ev \<noteq> Rc_op_max_plus 3"
  by (cases ev) (auto simp: mutt_menu_loop_def split: option.splits if_splits)

lemma menu_while_ro:
  "menu_while env c ce h idx ''ro'' evs st = Some (d, st') \<Longrightarrow> st' = st"
proof (induction evs)
  case Nil
  then show ?case by simp
next
  case (Cons ev evs)
  then show ?case
    using menu_loop_ro [of ev]
    by (cases "mutt_menu_loop ''ro'' ev") (auto split: if_splits)
qed

lemma menu_keys_a:
  "(CHR ''a'' \<in> set (menu_keys env ce sv)) =
   (C_CertificateFile env \<noteq> None \<and> sv = 0 \<and>
    ce AND (CERTERR_EXPIRED OR CERTERR_NOTYETVALID OR CERTERR_REVOKED) = 0)"
  by (simp add: menu_keys_def)

text \<open>
  Claim C10. The key for accept-always is among the keys of the prompt exactly when a
  certificate file is configured, the certificate is not saved already and none of
  \<open>CERTERR_EXPIRED\<close>, \<open>CERTERR_NOTYETVALID\<close>, \<open>CERTERR_REVOKED\<close> is set; and whenever
  \<open>tls_check_one_certificate\<close> returns for a certificate whose bitmap has one of the
  three bits, the certificate file is what it was before.
\<close>

theorem always_only_without_date_or_revocation_defect:
  "((CHR ''a'' \<in> set (menu_keys env certerr savedcert)) =
      (C_CertificateFile env \<noteq> None \<and> savedcert = 0 \<and>
       certerr AND (CERTERR_EXPIRED OR CERTERR_NOTYETVALID OR CERTERR_REVOKED) = 0))
   \<and> (tls_check_one_certificate env certdata certstat hostname idx len st = Some (rc, st')
        \<and> pa_certerr (tls_check_preauth env st certdata certstat hostname idx)
             AND (CERTERR_EXPIRED OR CERTERR_NOTYETVALID OR CERTERR_REVOKED) \<noteq> 0
       \<longrightarrow> cert_file st' = cert_file st)"
proof (intro conjI impI)
  show "(CHR ''a'' \<in> set (menu_keys env certerr savedcert)) =
      (C_CertificateFile env \<noteq> None \<and> savedcert = 0 \<and>
       certerr AND (CERTERR_EXPIRED OR CERTERR_NOTYETVALID OR CERTERR_REVOKED) = 0)"
    by (rule menu_keys_a)
next
  assume a: "tls_check_one_certificate env certdata certstat hostname idx len st = Some (rc, st')
        \<and> pa_certerr (tls_check_preauth env st certdata certstat hostname idx)
             AND (CERTERR_EXPIRED OR CERTERR_NOTYETVALID OR CERTERR_REVOKED) \<noteq> 0"
  then have k: "menu_keys env (pa_certerr (tls_check_preauth env st certdata certstat hostname idx))
      (pa_savedcert (tls_check_preauth env st certdata certstat hostname idx)) = ''ro''"
    by (simp add: menu_keys_def)
  from a show "cert_file st' = cert_file st"
    by (auto simp: tls_check_one_certificate_def Let_def k split: if_splits option.splits
        dest!: menu_while_ro)
qed

theorem always_only_without_date_or_revocation_defect_witness:
  "tls_check_one_certificate ex_env_always_then_once ex_expired 0 ex_host 0 1 ex_state =
     Some (1, ex_state\<lparr>trace := [Ev_menu 0 CERTERR_EXPIRED ''ro'']\<rparr>)
   \<and> pa_certerr (tls_check_preauth ex_env_always_then_once ex_state ex_expired 0 ex_host 0)
        AND (CERTERR_EXPIRED OR CERTERR_NOTYETVALID OR CERTERR_REVOKED) \<noteq> 0
   \<and> cert_file (ex_state\<lparr>trace := [Ev_menu 0 CERTERR_EXPIRED ''ro'']\<rparr>) = cert_file ex_state
   \<and> CHR ''a'' \<notin> set (menu_keys ex_env_always_then_once CERTERR_EXPIRED 0)"
proof -
  have h: "tls_check_one_certificate ex_env_always_then_once ex_expired 0 ex_host 0 1 ex_state =
     Some (1, ex_state\<lparr>trace := [Ev_menu 0 CERTERR_EXPIRED ''ro'']\<rparr>)
   \<and> pa_certerr (tls_check_preauth ex_env_always_then_once ex_state ex_expired 0 ex_host 0)
        AND (CERTERR_EXPIRED OR CERTERR_NOTYETVALID OR CERTERR_REVOKED) \<noteq> 0"
    by code_simp
  have k: "CERTERR_EXPIRED AND (CERTERR_EXPIRED OR CERTERR_NOTYETVALID OR CERTERR_REVOKED) \<noteq> 0"
    by (simp add: certerr_defs)
  show ?thesis
    using always_only_without_date_or_revocation_defect
      [of ex_env_always_then_once CERTERR_EXPIRED 0 ex_expired 0 ex_host 0 1 ex_state 1
        "ex_state\<lparr>trace := [Ev_menu 0 CERTERR_EXPIRED ''ro'']\<rparr>"] h k
    by blast
qed

section \<open>The fast path for a saved, clean chain\<close>

lemma preauth_saved_valid_rc:
  "pa_savedcert (tls_check_preauth env st c cs h i) = 1 \<Longrightarrow>
   pa_certerr (tls_check_preauth env st c cs h i) = CERTERR_VALID \<Longrightarrow>
   pa_rc (tls_check_preauth env st c cs h i) = 0"
  by (simp add: tls_check_preauth_def Let_def split: if_splits)

text \<open>
  Claim C4. For a chain of at least one certificate in which \<open>tls_check_preauth\<close> reports
  every certificate as saved and with bitmap \<open>CERTERR_VALID\<close>, \<open>tls_check_certificate\<close>
  returns 1 from the first loop: the state is unchanged, so no dialog has been shown.
\<close>

theorem pinned_clean_chain_accepted:
  assumes "auth_is_certificate conn" and "peers conn = Some cert_list" and "cert_list \<noteq> []"
    and "\<forall>i < length cert_list.
           pa_savedcert (tls_check_preauth env st (cert_list ! i)
              (tls_verify_peers (verify_peers2 env (trust_mem st))) (account_host conn) i) = 1
         \<and> pa_certerr (tls_check_preauth env st (cert_list ! i)
              (tls_verify_peers (verify_peers2 env (trust_mem st))) (account_host conn) i)
             = CERTERR_VALID"
  shows "tls_check_certificate env conn st = Some (1, st)"
proof -
  obtain c cs where l: "cert_list = c # cs" using assms(3) by (cases cert_list) auto
  let ?pa = "tls_check_preauth env st c
     (tls_verify_peers (verify_peers2 env (trust_mem st))) (account_host conn) 0"
  from assms(4) l have s: "pa_savedcert ?pa = 1" and e: "pa_certerr ?pa = CERTERR_VALID"
    by auto
  then have r: "pa_rc ?pa = 0" by (rule preauth_saved_valid_rc)
  show ?thesis
    using assms(1,2) l s r by (simp add: tls_check_certificate_def Let_def)
qed

theorem pinned_clean_chain_accepted_witness:
  "tls_check_certificate ex_env ex_conn1 ex_pinned_state = Some (1, ex_pinned_state)"
proof -
  have h1: "auth_is_certificate ex_conn1" by (simp add: ex_conn1_def)
  have h2: "peers ex_conn1 = Some [ex_leaf]" by (simp add: ex_conn1_def)
  have h3: "[ex_leaf] \<noteq> []" by simp
  have p: "pa_savedcert (tls_check_preauth ex_env ex_pinned_state ex_leaf
              (tls_verify_peers (verify_peers2 ex_env (trust_mem ex_pinned_state))) (account_host ex_conn1) 0) = 1
         \<and> pa_certerr (tls_check_preauth ex_env ex_pinned_state ex_leaf
              (tls_verify_peers (verify_peers2 ex_env (trust_mem ex_pinned_state))) (account_host ex_conn1) 0)
             = CERTERR_VALID"
    by code_simp
  have h4: "\<forall>i < length [ex_leaf].
           pa_savedcert (tls_check_preauth ex_env ex_pinned_state ([ex_leaf] ! i)
              (tls_verify_peers (verify_peers2 ex_env (trust_mem ex_pinned_state))) (account_host ex_conn1) i) = 1
         \<and> pa_certerr (tls_check_preauth ex_env ex_pinned_state ([ex_leaf] ! i)
              (tls_verify_peers (verify_peers2 ex_env (trust_mem ex_pinned_state))) (account_host ex_conn1) i)
             = CERTERR_VALID"
    using p by simp
  show ?thesis by (rule pinned_clean_chain_accepted [OF h1 h2 h3 h4])
qed

section \<open>Rejection in the interactive loop\<close>






section \<open>Trusting an accepted signer and verifying again\<close>

lemma preauth_loop_keeps_rcpeer:
  "preauth_loop env st cs h l (Suc i) prc rcpeer rc = Loop_end rp r \<Longrightarrow> rp = rcpeer"
proof (induction l arbitrary: i prc rc)
  case Nil
  then show ?case by simp
next
  case (Cons c l)
  then show ?case by (auto simp: Let_def split: if_splits)
qed

lemma preauth_loop_stash:
  "preauth_loop env st cs h (c # l) 0 0 (- 1) 0 = Loop_end rp r \<Longrightarrow>
   rp = pa_rc (tls_check_preauth env st c cs h 0)"
  by (auto simp: Let_def split: if_splits dest: preauth_loop_keeps_rcpeer)

text \<open>
  Claim C3, as amended. After a certificate at an index above 0 has passed
  \<open>tls_check_one_certificate\<close>, it is handed to the trust set and the peers are verified
  again. If the new status is clean and \<open>rcpeer\<close> is 0, the result is 1 at once; otherwise
  the loop goes on with the next lower index and the new status. \<open>rcpeer\<close> is the result of
  \<open>tls_check_preauth\<close> for the leaf that the first loop stashed, computed with the status
  and the certificate file as they were then; it is not computed again.
\<close>

theorem accepted_signer_reverify:
  "(tls_check_one_certificate env (cert_list ! i) certstat host i (length cert_list) st
       = Some (rc1, st1) \<and> rc1 \<noteq> 0 \<and> i \<noteq> 0 \<longrightarrow>
     interactive_loop env host cert_list rcpeer (Suc i) certstat rc st =
       (let anchors = trust_mem st1 @ [der (cert_list ! i)];
            certstat2 = tls_verify_peers (verify_peers2 env anchors);
            st2 = st1\<lparr>trust_mem := anchors, trace := trace st1 @ [Ev_trust i, Ev_reverify i]\<rparr>
        in if certstat2 = 0 \<and> rcpeer = 0 then Some (1, st2)
           else interactive_loop env host cert_list rcpeer i certstat2 (trust_mem_rc env i) st2))
   \<and> (preauth_loop env st0 certstat0 host (c # cs) 0 0 (- 1) 0 = Loop_end rp r \<longrightarrow>
        rp = pa_rc (tls_check_preauth env st0 c certstat0 host 0))"
proof (intro conjI impI)
  assume "tls_check_one_certificate env (cert_list ! i) certstat host i (length cert_list) st
       = Some (rc1, st1) \<and> rc1 \<noteq> 0 \<and> i \<noteq> 0"
  then show "interactive_loop env host cert_list rcpeer (Suc i) certstat rc st =
       (let anchors = trust_mem st1 @ [der (cert_list ! i)];
            certstat2 = tls_verify_peers (verify_peers2 env anchors);
            st2 = st1\<lparr>trust_mem := anchors, trace := trace st1 @ [Ev_trust i, Ev_reverify i]\<rparr>
        in if certstat2 = 0 \<and> rcpeer = 0 then Some (1, st2)
           else interactive_loop env host cert_list rcpeer i certstat2 (trust_mem_rc env i) st2)"
    by (simp add: trust_and_reverify_def Let_def)
next
  assume "preauth_loop env st0 certstat0 host (c # cs) 0 0 (- 1) 0 = Loop_end rp r"
  then show "rp = pa_rc (tls_check_preauth env st0 c certstat0 host 0)"
    by (rule preauth_loop_stash)
qed

theorem accepted_signer_reverify_witness:
  "tls_check_one_certificate ex_env ([ex_leaf, ex_root] ! 1) 0 ex_host 1 (length [ex_leaf, ex_root])
       ex_state = Some (1, ex_state)
   \<and> interactive_loop ex_env ex_host [ex_leaf, ex_root] 0 (Suc 1) 0 0 ex_state =
       Some (1, \<lparr>cert_file = None, trust_mem = [[3, 3]], trace = [Ev_trust 1, Ev_reverify 1]\<rparr>)
   \<and> preauth_loop ex_env ex_state 0 ex_host [ex_leaf, ex_root] 0 0 (- 1) 0 = Loop_end 0 0
   \<and> pa_rc (tls_check_preauth ex_env ex_state ex_leaf 0 ex_host 0) = 0"
proof -
  have h: "tls_check_one_certificate ex_env ([ex_leaf, ex_root] ! 1) 0 ex_host 1 (length [ex_leaf, ex_root])
       ex_state = Some (1, ex_state) \<and> (1::int) \<noteq> 0 \<and> (1::nat) \<noteq> 0"
    by code_simp
  have p: "preauth_loop ex_env ex_state 0 ex_host [ex_leaf, ex_root] 0 0 (- 1) 0 = Loop_end 0 0"
    by code_simp
  have r: "interactive_loop ex_env ex_host [ex_leaf, ex_root] 0 (Suc 1) 0 0 ex_state =
       (let anchors = trust_mem ex_state @ [der ([ex_leaf, ex_root] ! 1)];
            certstat2 = tls_verify_peers (verify_peers2 ex_env anchors);
            st2 = ex_state\<lparr>trust_mem := anchors, trace := trace ex_state @ [Ev_trust 1, Ev_reverify 1]\<rparr>
        in if certstat2 = 0 \<and> (0::int) = 0 then Some (1, st2)
           else interactive_loop ex_env ex_host [ex_leaf, ex_root] 0 1 certstat2 (trust_mem_rc ex_env 1) st2)"
    (is "_ = ?rhs")
    using accepted_signer_reverify [of ex_env "[ex_leaf, ex_root]" 1 0 ex_host ex_state 1 ex_state 0 0] h
    by blast
  have e: "?rhs = Some (1, \<lparr>cert_file = None, trust_mem = [[3, 3]], trace = [Ev_trust 1, Ev_reverify 1]\<rparr>)"
    by code_simp
  have q: "0 = pa_rc (tls_check_preauth ex_env ex_state ex_leaf 0 ex_host 0)"
    using accepted_signer_reverify [of ex_env "[ex_leaf, ex_root]" 1 0 ex_host ex_state 1 ex_state 0 0
        ex_state 0 ex_leaf "[ex_root]" 0 0] p
    by blast
  from h r e p q show ?thesis by (simp only: simp_thms)
qed

text \<open>
  Claim C3 as stated fails. For a chain of three with an untrusted status at first, the
  root is accepted once and the second verification is clean; \<open>tls_check_preauth\<close> for the
  leaf, computed at that time, gives \<open>CERTERR_VALID\<close>. The check does not end there: the
  stashed result for the leaf is \<open>-1\<close>, so the dialog for the expired intermediate
  certificate is shown.
\<close>

theorem stale_leaf_result_counterexample:
  "tls_check_certificate ex_env_accept_once ex_conn3 ex_state =
     Some (1, \<lparr>cert_file = None, trust_mem = [[3, 3], [2, 2]],
                trace = [Ev_menu 2 CERTERR_NOTTRUSTED ''roa'', Ev_trust 2, Ev_reverify 2,
                         Ev_menu 1 CERTERR_EXPIRED ''ro'', Ev_trust 1, Ev_reverify 1]\<rparr>)
   \<and> tls_verify_peers (verify_peers2 ex_env_accept_once [[3, 3]]) = 0
   \<and> tls_check_preauth ex_env_accept_once
        \<lparr>cert_file = None, trust_mem = [[3, 3]],
         trace = [Ev_menu 2 CERTERR_NOTTRUSTED ''roa'', Ev_trust 2, Ev_reverify 2]\<rparr>
        ex_leaf 0 ex_host 0
       = \<lparr>pa_rc = 0, pa_certerr = CERTERR_VALID, pa_savedcert = 0, pa_exit = Exit_checked\<rparr>
   \<and> tls_check_preauth ex_env_accept_once ex_state ex_leaf GNUTLS_CERT_INVALID ex_host 0
       = \<lparr>pa_rc = - 1, pa_certerr = CERTERR_NOTTRUSTED, pa_savedcert = 0, pa_exit = Exit_checked\<rparr>"
  by code_simp

section \<open>Looking up a host name record\<close>

lemma stored_hostname_loop_iff:
  "(stored_hostname_loop ls h b = 1) = (Some (h, b) \<in> set (map pin_of_line ls))"
  by (induction ls) (auto simp: pin_of_line_def split: option.splits)

lemma stored_hostname_loop_range:
  "stored_hostname_loop ls h b = 1 \<or> stored_hostname_loop ls h b = 0"
  by (induction ls) (auto split: option.splits)

text \<open>
  Claim C9, as amended. \<open>tls_check_stored_hostname\<close> returns 1 if and only if the
  certificate file can be read, the pattern compiles and some line of the file is a host
  name record whose host name is exactly the queried host name, character for character
  and with the same case, and whose digest is exactly the fingerprint of the
  certificate; otherwise it returns 0.
\<close>

theorem stored_hostname_exact_match:
  "((tls_check_stored_hostname env st cert hostname = 1) =
     (\<exists>content. fopen_read env st = Some content \<and> regcomp_ok env \<and>
        Some (hostname, tls_fingerprint 80 (fingerprint_md5 cert))
          \<in> set (map pin_of_line (read_lines [] content))))
   \<and> (tls_check_stored_hostname env st cert hostname = 1
        \<or> tls_check_stored_hostname env st cert hostname = 0)"
  using stored_hostname_loop_range
  by (auto simp: tls_check_stored_hostname_def stored_hostname_loop_iff split: option.splits)

theorem stored_hostname_exact_match_witness:
  "tls_check_stored_hostname ex_env ex_pin_state ex_leaf ex_host = 1
   \<and> fopen_read ex_env ex_pin_state = Some (hostname_line ex_host ex_fpbuf)
   \<and> pin_of_line (''#H mail.example.org 0001 0203 0405 0607 0809 0A0B 0C0D 0EFF'')
       = Some (ex_host, tls_fingerprint 80 (fingerprint_md5 ex_leaf))"
proof -
  have c: "fopen_read ex_env ex_pin_state = Some (hostname_line ex_host ex_fpbuf) \<and> regcomp_ok ex_env \<and>
        Some (ex_host, tls_fingerprint 80 (fingerprint_md5 ex_leaf))
          \<in> set (map pin_of_line (read_lines [] (hostname_line ex_host ex_fpbuf)))"
    by code_simp
  have p: "pin_of_line (''#H mail.example.org 0001 0203 0405 0607 0809 0A0B 0C0D 0EFF'')
       = Some (ex_host, tls_fingerprint 80 (fingerprint_md5 ex_leaf))"
    by code_simp
  from c have "\<exists>content. fopen_read ex_env ex_pin_state = Some content \<and> regcomp_ok ex_env \<and>
        Some (ex_host, tls_fingerprint 80 (fingerprint_md5 ex_leaf))
          \<in> set (map pin_of_line (read_lines [] content))"
    by blast
  then have "tls_check_stored_hostname ex_env ex_pin_state ex_leaf ex_host = 1"
    using stored_hostname_exact_match [of ex_env ex_pin_state ex_leaf ex_host] by blast
  with c p show ?thesis by blast
qed

text \<open>
  Claim C9 as stated fails: a record whose host name differs from the queried one in
  the case of letters only, with the same digest, is not found.
\<close>

theorem hostname_case_counterexample:
  "tls_check_stored_hostname ex_env ex_upper_pin_state ex_leaf ex_host = 0
   \<and> fopen_read ex_env ex_upper_pin_state = Some (hostname_line ''Mail.Example.ORG'' ex_fpbuf)
   \<and> spec_matchHostnamePin (read_lines [] (hostname_line ''Mail.Example.ORG'' ex_fpbuf))
        ex_host (tls_fingerprint 80 (fingerprint_md5 ex_leaf))"
  by code_simp

section \<open>Writing a host name record and reading it back\<close>

lemma hex_digit_class [simp]: "hex_class (hex_digit n)"
proof -
  have "list_all hex_class ''0123456789ABCDEF''" by (simp add: hex_class_def)
  moreover have "n mod 16 < length ''0123456789ABCDEF''" by simp
  ultimately show ?thesis unfolding hex_digit_def list_all_length by blast
qed

lemma hex_digit_not_special [simp]:
  "hex_digit n \<noteq> newline" "hex_digit n \<noteq> carriage_return" "hex_digit n \<noteq> CHR '' ''"
  "newline \<noteq> hex_digit n" "carriage_return \<noteq> hex_digit n" "CHR '' '' \<noteq> hex_digit n"
  using hex_digit_class [of n]
  by (auto simp: hex_class_def newline_def carriage_return_def)

lemma spaced_quads_numeral:
  "spaced_quads (numeral k) s =
     (case s of [] \<Rightarrow> False
      | c # r \<Rightarrow> c = CHR '' '' \<and> hex_quad (take 4 r) \<and> spaced_quads (pred_numeral k) (drop 4 r))"
  by (simp add: numeral_eq_Suc)

lemma length16:
  assumes "length (md :: 'a list) = 16"
  obtains b0 b1 b2 b3 b4 b5 b6 b7 b8 b9 b10 b11 b12 b13 b14 b15
  where "md = [b0, b1, b2, b3, b4, b5, b6, b7, b8, b9, b10, b11, b12, b13, b14, b15]"
  using assms by (auto simp: numeral_eq_Suc length_Suc_conv)

lemma md5_fingerprint:
  assumes "length md = 16"
  shows "tls_fingerprint 128 (Some md) = tls_fingerprint 80 (Some md)"
    and "digest_re (tls_fingerprint 80 (Some md))"
    and "length (tls_fingerprint 80 (Some md)) = 39"
    and "newline \<notin> set (tls_fingerprint 80 (Some md))"
    and "last (tls_fingerprint 80 (Some md)) \<noteq> carriage_return"
proof -
  from assms obtain b0 b1 b2 b3 b4 b5 b6 b7 b8 b9 b10 b11 b12 b13 b14 b15
    where m: "md = [b0, b1, b2, b3, b4, b5, b6, b7, b8, b9, b10, b11, b12, b13, b14, b15]"
    by (rule length16)
  show "tls_fingerprint 128 (Some md) = tls_fingerprint 80 (Some md)"
    by (simp add: m tls_fingerprint_def hex_octet_def)
  show "digest_re (tls_fingerprint 80 (Some md))"
    by (simp add: m tls_fingerprint_def hex_octet_def digest_re_def hex_quad_def
        spaced_quads_numeral)
  show "length (tls_fingerprint 80 (Some md)) = 39"
    by (simp add: m tls_fingerprint_def hex_octet_def)
  show "newline \<notin> set (tls_fingerprint 80 (Some md))"
    by (simp add: m tls_fingerprint_def hex_octet_def) (simp add: newline_def)
  show "last (tls_fingerprint 80 (Some md)) \<noteq> carriage_return"
    by (simp add: m tls_fingerprint_def hex_octet_def)
qed


lemma read_lines_line:
  "newline \<notin> set l \<Longrightarrow> read_lines cur (l @ newline # more_text) = strip_cr (cur @ l) # read_lines [] more_text"
  by (induction l arbitrary: cur) auto

lemma read_lines_append:
  "read_lines cur (pre @ newline # ys) = read_lines cur (pre @ [newline]) @ read_lines [] ys"
  by (induction pre arbitrary: cur) auto

lemma read_lines_new_line:
  assumes "old = [] \<or> last old = newline" and "newline \<notin> set l"
  shows "read_lines [] (old @ l @ [newline]) = read_lines [] old @ [strip_cr l]"
proof (cases "old = []")
  case True
  then show ?thesis using read_lines_line [OF assms(2), of "[]" "[]"] by simp
next
  case False
  with assms(1) obtain pre where p: "old = pre @ [newline]"
    by (metis append_butlast_last_id)
  have "read_lines [] (old @ l @ [newline]) = read_lines [] (pre @ newline # (l @ [newline]))"
    by (simp add: p)
  also have "\<dots> = read_lines [] (pre @ [newline]) @ read_lines [] (l @ [newline])"
    by (rule read_lines_append)
  also have "read_lines [] (l @ [newline]) = [strip_cr l]"
    using read_lines_line [OF assms(2), of "[]" "[]"] by simp
  finally show ?thesis by (simp add: p)
qed

lemma host_class_not_special:
  "host_class c \<Longrightarrow> c \<noteq> newline \<and> c \<noteq> CHR '' ''"
  by (auto simp: host_class_def newline_def backslash_def)

lemma regexec_pin_hostname_line:
  assumes "h \<noteq> []" and "list_all host_class h" and "digest_re fp" and "length fp = 39"
  shows "regexec_pin (''#H '' @ h @ '' '' @ fp) = Some (h, fp)"
proof -
  have all: "\<forall>x\<in>set h. host_class x" using assms(2) by (simp add: list_all_iff)
  have sp: "\<not> host_class (CHR '' '')" using host_class_not_special by blast
  have t: "takeWhile host_class (h @ CHR '' '' # fp) = h"
    using all sp by (simp add: takeWhile_append2)
  have d: "dropWhile host_class (h @ CHR '' '' # fp) = CHR '' '' # fp"
    using all sp by (simp add: dropWhile_append2)
  show ?thesis
    using assms(1,3,4) by (simp add: regexec_pin_def Let_def t d)
qed

lemma pin_of_hostname_line:
  assumes "h \<noteq> []" and "list_all host_class h" and "digest_re fp" and "length fp = 39"
  shows "pin_of_line (''#H '' @ h @ '' '' @ fp) = Some (h, fp)"
  using regexec_pin_hostname_line [OF assms] by (simp add: pin_of_line_def)

lemma hostname_line_no_newline:
  assumes "list_all host_class h" and "newline \<notin> set fp"
  shows "newline \<notin> set (''#H '' @ h @ '' '' @ fp)"
  using assms host_class_not_special by (auto simp: list_all_iff newline_def)

lemma stored_hostname_loop_cong:
  assumes "(Some (h, b) \<in> set (map pin_of_line ls)) = (Some (h, b) \<in> set (map pin_of_line ls'))"
  shows "stored_hostname_loop ls h b = stored_hostname_loop ls' h b"
  using assms stored_hostname_loop_range [of ls h b] stored_hostname_loop_range [of ls' h b]
  unfolding stored_hostname_loop_iff [symmetric] by auto

text \<open>
  Claim C8, as amended. Let the host name be one or more characters of the class
  \<open>[a-zA-Z0-9_\.-]\<close>, the digest the fingerprint of a 16-octet MD5 value, and the
  certificate file missing, empty or ending in a line feed, with the file readable and
  the pattern compiled. After the host name line for the certificate has been appended,
  \<open>tls_check_stored_hostname\<close> returns 1 for that host and certificate; and for a
  certificate with a different fingerprint it returns what it returned before the
  append, so 0 unless an earlier record matches.
\<close>

theorem hostname_pin_round_trip:
  assumes "C_CertificateFile env \<noteq> None" and "regcomp_ok env"
    and "hostname \<noteq> []" and "list_all host_class hostname"
    and "fingerprint_md5 cert = Some md" and "length md = 16"
    and "old_content st = [] \<or> last (old_content st) = newline"
  shows "tls_check_stored_hostname env
           (st\<lparr>cert_file := Some (snd (save_hostname cert CERTERR_HOSTNAME hostname (d, old_content st)))\<rparr>)
           cert hostname = 1
       \<and> (tls_fingerprint 80 (fingerprint_md5 cert') \<noteq> tls_fingerprint 80 (fingerprint_md5 cert) \<longrightarrow>
           tls_check_stored_hostname env
             (st\<lparr>cert_file := Some (snd (save_hostname cert CERTERR_HOSTNAME hostname (d, old_content st)))\<rparr>)
             cert' hostname
           = tls_check_stored_hostname env (st\<lparr>cert_file := Some (old_content st)\<rparr>) cert' hostname)"
proof -
  define fp where "fp = tls_fingerprint 80 (Some md)"
  define l where "l = ''#H '' @ hostname @ '' '' @ fp"
  define new_st where "new_st =
    st\<lparr>cert_file := Some (snd (save_hostname cert CERTERR_HOSTNAME hostname (d, old_content st)))\<rparr>"
  have fp128: "tls_fingerprint 128 (fingerprint_md5 cert) = fp"
    using assms(5) md5_fingerprint(1) [OF assms(6)] by (simp add: fp_def)
  have fp80: "tls_fingerprint 80 (fingerprint_md5 cert) = fp"
    using assms(5) by (simp add: fp_def)
  have new: "cert_file new_st = Some (old_content st @ l @ [newline])"
    by (simp add: new_st_def save_hostname_def hostname_line_def fp128 CERTERR_HOSTNAME_def l_def)
  have nonl: "newline \<notin> set l"
    unfolding l_def fp_def
    by (rule hostname_line_no_newline [OF assms(4) md5_fingerprint(4) [OF assms(6)]])
  have "last l = last fp"
    using md5_fingerprint(3) [OF assms(6)] by (auto simp: last_append l_def fp_def)
  then have cr: "strip_cr l = l"
    using md5_fingerprint(5) [OF assms(6)] by (simp add: strip_cr_def fp_def)
  have ls: "read_lines [] (old_content st @ l @ [newline]) = read_lines [] (old_content st) @ [l]"
    using read_lines_new_line [OF assms(7) nonl] cr by simp
  have pin: "pin_of_line l = Some (hostname, fp)"
    unfolding l_def fp_def
    by (rule pin_of_hostname_line [OF assms(3,4) md5_fingerprint(2,3) [OF assms(6)]])
  have rd: "fopen_read env new_st = Some (old_content st @ l @ [newline])"
    using assms(1) new by (auto simp: fopen_read_def)
  have rd_old: "fopen_read env (st\<lparr>cert_file := Some (old_content st)\<rparr>) = Some (old_content st)"
    using assms(1) by (auto simp: fopen_read_def)
  have a: "tls_check_stored_hostname env new_st cert hostname = 1"
    using assms(2)
    by (simp add: tls_check_stored_hostname_def rd ls stored_hostname_loop_iff pin fp80)
  have b: "tls_check_stored_hostname env new_st cert' hostname
           = tls_check_stored_hostname env (st\<lparr>cert_file := Some (old_content st)\<rparr>) cert' hostname"
    if ne: "tls_fingerprint 80 (fingerprint_md5 cert') \<noteq> tls_fingerprint 80 (fingerprint_md5 cert)"
  proof -
    have "stored_hostname_loop (read_lines [] (old_content st) @ [l]) hostname
            (tls_fingerprint 80 (fingerprint_md5 cert'))
        = stored_hostname_loop (read_lines [] (old_content st)) hostname
            (tls_fingerprint 80 (fingerprint_md5 cert'))"
      using ne by (intro stored_hostname_loop_cong) (auto simp: pin fp80)
    then show ?thesis
      by (simp add: tls_check_stored_hostname_def rd rd_old ls)
  qed
  from a b show ?thesis unfolding new_st_def by blast
qed

theorem hostname_pin_round_trip_witness:
  "tls_check_stored_hostname ex_env
     (ex_state\<lparr>cert_file := Some (snd (save_hostname ex_leaf CERTERR_HOSTNAME ex_host (0, old_content ex_state)))\<rparr>)
     ex_leaf ex_host = 1
   \<and> tls_check_stored_hostname ex_env
     (ex_state\<lparr>cert_file := Some (snd (save_hostname ex_leaf CERTERR_HOSTNAME ex_host (0, old_content ex_state)))\<rparr>)
     ex_leaf_other_digest ex_host = 0"
proof -
  have h1: "C_CertificateFile ex_env \<noteq> None" by (simp add: ex_env_def)
  have h2: "regcomp_ok ex_env" by (simp add: ex_env_def)
  have h3: "ex_host \<noteq> []" by (simp add: ex_host_def)
  have h4: "list_all host_class ex_host" by code_simp
  have h5: "fingerprint_md5 ex_leaf = Some ex_md5" by (simp add: ex_leaf_def)
  have h6: "length ex_md5 = 16" by (simp add: ex_md5_def)
  have h7: "old_content ex_state = [] \<or> last (old_content ex_state) = newline"
    by (simp add: old_content_def ex_state_def)
  have ne: "tls_fingerprint 80 (fingerprint_md5 ex_leaf_other_digest)
      \<noteq> tls_fingerprint 80 (fingerprint_md5 ex_leaf)"
    by code_simp
  have z: "tls_check_stored_hostname ex_env (ex_state\<lparr>cert_file := Some (old_content ex_state)\<rparr>)
      ex_leaf_other_digest ex_host = 0"
    by code_simp
  show ?thesis
    using hostname_pin_round_trip [OF h1 h2 h3 h4 h5 h6 h7, of 0 ex_leaf_other_digest] ne z
    by (simp only: simp_thms)
qed

text \<open>
  Claim C8 as stated fails for a host name outside the class of the pattern, such as an
  IPv6 address: accept-always writes the line, and the lookup does not find it.
\<close>

theorem hostname_pin_ipv6_counterexample:
  "tls_check_one_certificate ex_env_always ex_leaf 0 ex_ipv6_host 0 1 ex_state =
     Some (1, \<lparr>cert_file = Some (hostname_line ex_ipv6_host ex_fpbuf), trust_mem = [],
                trace = [Ev_menu 0 CERTERR_HOSTNAME ''roa'', Ev_message_saved]\<rparr>)
   \<and> tls_fingerprint 80 (fingerprint_md5 ex_leaf) = ex_fpbuf
   \<and> tls_check_stored_hostname ex_env_always
        \<lparr>cert_file = Some (hostname_line ex_ipv6_host ex_fpbuf), trust_mem = [],
         trace = [Ev_menu 0 CERTERR_HOSTNAME ''roa'', Ev_message_saved]\<rparr>
        ex_leaf ex_ipv6_host = 0"
  by code_simp

end
